theory Spec2Isabelle
  imports Complex_Main "HOL-Library.Word"
begin

unbundle bit_operations_syntax

section \<open>Resources (entity.py, class Resource)\<close>

text \<open>
  A \<^verbatim>\<open>Resource\<close> carries a name, the current capacity in use and the maximum capacity.
  Python integers are unbounded, so both counters are \<^typ>\<open>int\<close>. The constructor
  starts with \<^verbatim>\<open>capacity = 0\<close>.
\<close>

record resource =
  name :: string
  capacity :: int
  capacity_max :: int

definition Resource :: "string \<Rightarrow> int \<Rightarrow> resource" where
  "Resource nm cmax = \<lparr> name = nm, capacity = 0, capacity_max = cmax \<rparr>"

text \<open>
  \<^verbatim>\<open>allocate_any\<close>: the source computes \<^verbatim>\<open>n_accommodated = self.capacity_max - n\<close>, adds it to
  the capacity and returns \<^verbatim>\<open>n - n_accommodated\<close>. The pair is (new state, return value).
\<close>

definition allocate_any :: "resource \<Rightarrow> int \<Rightarrow> resource \<times> int" where
  "allocate_any r n =
     (let n_accommodated = capacity_max r - n
      in (r\<lparr>capacity := capacity r + n_accommodated\<rparr>, n - n_accommodated))"

definition allocate_all :: "resource \<Rightarrow> int \<Rightarrow> resource \<times> bool" where
  "allocate_all r n =
     (if capacity r + n \<le> capacity_max r
      then (r\<lparr>capacity := capacity r + n\<rparr>, True)
      else (r, False))"

definition can_accommodate_all :: "resource \<Rightarrow> int \<Rightarrow> bool" where
  "can_accommodate_all r n \<longleftrightarrow> capacity r + n \<le> capacity_max r"

definition release :: "resource \<Rightarrow> int \<Rightarrow> resource" where
  "release r n =
     (if capacity r = 0 then r
      else r\<lparr>capacity := max 0 (capacity r - n)\<rparr>)"

text \<open>Sequences of calls on one resource; return values are dropped.\<close>

datatype resource_call = Allocate_all int | Allocate_any int | Release int

fun resource_step :: "resource \<Rightarrow> resource_call \<Rightarrow> resource" where
  "resource_step r (Allocate_all n) = fst (allocate_all r n)"
| "resource_step r (Allocate_any n) = fst (allocate_any r n)"
| "resource_step r (Release n) = release r n"

definition resource_calls :: "resource \<Rightarrow> resource_call list \<Rightarrow> resource" where
  "resource_calls r cs = foldl resource_step r cs"

fun call_arg :: "resource_call \<Rightarrow> int" where
  "call_arg (Allocate_all n) = n"
| "call_arg (Allocate_any n) = n"
| "call_arg (Release n) = n"

fun is_allocate_any :: "resource_call \<Rightarrow> bool" where
  "is_allocate_any (Allocate_any n) = True"
| "is_allocate_any _ = False"

definition capacity_inv :: "resource \<Rightarrow> bool" where
  "capacity_inv r \<longleftrightarrow> 0 \<le> capacity r \<and> capacity r \<le> capacity_max r"


section \<open>Values and dictionaries\<close>

text \<open>
  Attribute and relation values are Python objects. The model has the plain values
  \<^verbatim>\<open>None\<close>, booleans, integers and strings, and references to \<^verbatim>\<open>Site\<close> and
  \<^verbatim>\<open>Resource\<close> objects. Masses and probabilities are floats, modelled in the section on
  floating-point numbers below.
\<close>

datatype pval = PNone | PBool bool | PInt int | PStr string

type_synonym ('k, 'v) dict = "('k \<times> 'v) list"

record site = resource +
  rel_name :: string
  site_attr :: "(string, pval) dict"

datatype ent = ESite site | ERes resource

datatype val = Plain pval | Obj ent

text \<open>Python's \<^verbatim>\<open>==\<close> on plain values: \<^verbatim>\<open>True == 1\<close> and \<^verbatim>\<open>False == 0\<close>.\<close>

fun pval_int :: "pval \<Rightarrow> int option" where
  "pval_int (PBool b) = Some (if b then 1 else 0)"
| "pval_int (PInt i) = Some i"
| "pval_int _ = None"

definition pval_eq :: "pval \<Rightarrow> pval \<Rightarrow> bool" where
  "pval_eq a b = (case (pval_int a, pval_int b) of
       (Some i, Some j) \<Rightarrow> i = j
     | (None, None) \<Rightarrow> a = b
     | _ \<Rightarrow> False)"

fun truthy :: "val \<Rightarrow> bool" where
  "truthy (Plain PNone) = False"
| "truthy (Plain (PBool b)) = b"
| "truthy (Plain (PInt i)) = (i \<noteq> 0)"
| "truthy (Plain (PStr s)) = (s \<noteq> [])"
| "truthy (Obj e) = True"

text \<open>
  A Python \<^verbatim>\<open>dict\<close> keeps its keys in insertion order, and the order is visible to
  \<^verbatim>\<open>pickle\<close>; a dictionary is an association list in insertion order with distinct keys.
  \<^verbatim>\<open>d[k] = v\<close> overwrites in place or appends; \<^verbatim>\<open>d.update(u)\<close> stores the items of
  \<^verbatim>\<open>u\<close> in order.
\<close>

definition dict_get :: "('k, 'v) dict \<Rightarrow> 'k \<Rightarrow> 'v option" where
  "dict_get d k = map_of d k"

fun dict_set :: "('k, 'v) dict \<Rightarrow> 'k \<Rightarrow> 'v \<Rightarrow> ('k, 'v) dict" where
  "dict_set [] k v = [(k, v)]"
| "dict_set ((k', v') # d) k v =
     (if k' = k then (k, v) # d else (k', v') # dict_set d k v)"



definition wf_dict :: "('k, 'v) dict \<Rightarrow> bool" where
  "wf_dict d \<longleftrightarrow> distinct (map fst d)"



section \<open>Content hash (entity.py, Group.gen_hash)\<close>

text \<open>
  \<^verbatim>\<open>Group.gen_hash(attr, rel)\<close> returns
  \<^verbatim>\<open>xxhash.xxh64(pickle.dumps((attr, rel))).intdigest()\<close>. Both library routines are
  written out: XXH64 with seed 0 on 64-bit words, and the byte stream of \<^verbatim>\<open>pickle\<close>
  protocol 4 (the default of Python 3.8 and 3.9, the versions on which the imports of
  the sources work) for a pair of dictionaries with string keys and plain values.
\<close>

type_synonym byte = "8 word"
type_synonym u64 = "64 word"
type_synonym hash = int

definition PRIME64_1 :: u64 where "PRIME64_1 = 0x9E3779B185EBCA87"
definition PRIME64_2 :: u64 where "PRIME64_2 = 0xC2B2AE3D27D4EB4F"
definition PRIME64_3 :: u64 where "PRIME64_3 = 0x165667B19E3779F9"
definition PRIME64_4 :: u64 where "PRIME64_4 = 0x85EBCA77C2B2AE63"
definition PRIME64_5 :: u64 where "PRIME64_5 = 0x27D4EB2F165667C5"

definition rotl64 :: "u64 \<Rightarrow> nat \<Rightarrow> u64" where
  "rotl64 x r = push_bit r x OR drop_bit (64 - r) x"

text \<open>Little-endian read of up to eight bytes.\<close>

definition read_le :: "byte list \<Rightarrow> u64" where
  "read_le bs = foldr (\<lambda>b acc. ucast b OR push_bit 8 acc) bs 0"

definition xxh64_round :: "u64 \<Rightarrow> u64 \<Rightarrow> u64" where
  "xxh64_round acc inp = rotl64 (acc + inp * PRIME64_2) 31 * PRIME64_1"

definition xxh64_merge_round :: "u64 \<Rightarrow> u64 \<Rightarrow> u64" where
  "xxh64_merge_round acc v = (acc XOR xxh64_round 0 v) * PRIME64_1 + PRIME64_4"

text \<open>The main loop over 32-byte stripes; the first argument counts the stripes left.\<close>

fun xxh64_stripes ::
  "nat \<Rightarrow> u64 \<times> u64 \<times> u64 \<times> u64 \<Rightarrow> byte list \<Rightarrow> u64 \<times> u64 \<times> u64 \<times> u64" where
  "xxh64_stripes 0 vs bs = vs"
| "xxh64_stripes (Suc n) (v1, v2, v3, v4) bs =
     xxh64_stripes n
       (xxh64_round v1 (read_le (take 8 bs)),
        xxh64_round v2 (read_le (take 8 (drop 8 bs))),
        xxh64_round v3 (read_le (take 8 (drop 16 bs))),
        xxh64_round v4 (read_le (take 8 (drop 24 bs))))
       (drop 32 bs)"

fun xxh64_words :: "nat \<Rightarrow> u64 \<Rightarrow> byte list \<Rightarrow> u64" where
  "xxh64_words 0 h bs = h"
| "xxh64_words (Suc n) h bs =
     xxh64_words n
       (rotl64 (h XOR xxh64_round 0 (read_le (take 8 bs))) 27 * PRIME64_1 + PRIME64_4)
       (drop 8 bs)"

fun xxh64_bytes :: "u64 \<Rightarrow> byte list \<Rightarrow> u64" where
  "xxh64_bytes h [] = h"
| "xxh64_bytes h (b # bs) =
     xxh64_bytes (rotl64 (h XOR ucast b * PRIME64_5) 11 * PRIME64_1) bs"

definition xxh64_avalanche :: "u64 \<Rightarrow> u64" where
  "xxh64_avalanche h0 =
     (let h1 = (h0 XOR drop_bit 33 h0) * PRIME64_2;
          h2 = (h1 XOR drop_bit 29 h1) * PRIME64_3
      in h2 XOR drop_bit 32 h2)"

definition xxh64 :: "byte list \<Rightarrow> u64" where
  "xxh64 bs =
     (let n = length bs;
          h0 = (if 32 \<le> n
                then (case xxh64_stripes (n div 32)
                             (PRIME64_1 + PRIME64_2, PRIME64_2, 0, 0 - PRIME64_1) bs of
                        (v1, v2, v3, v4) \<Rightarrow>
                          xxh64_merge_round (xxh64_merge_round (xxh64_merge_round
                            (xxh64_merge_round
                               (rotl64 v1 1 + rotl64 v2 7 + rotl64 v3 12 + rotl64 v4 18)
                               v1) v2) v3) v4)
                else PRIME64_5);
          h1 = h0 + of_nat n;
          r1 = drop (32 * (n div 32)) bs;
          h2 = xxh64_words (length r1 div 8) h1 r1;
          r2 = drop (8 * (length r1 div 8)) r1;
          h3 = (if 4 \<le> length r2
                then rotl64 (h2 XOR read_le (take 4 r2) * PRIME64_1) 23 * PRIME64_2
                       + PRIME64_3
                else h2);
          r3 = (if 4 \<le> length r2 then drop 4 r2 else r2)
      in xxh64_avalanche (xxh64_bytes h3 r3))"

text \<open>
  The pickle stream. \<^verbatim>\<open>le_bytes n x\<close> are the \<open>n\<close> low bytes of \<open>x\<close>, least significant
  first (two's complement for a negative \<open>x\<close>). A string is a list of bytes, taken as its
  UTF-8 encoding.
\<close>

fun le_bytes :: "nat \<Rightarrow> int \<Rightarrow> byte list" where
  "le_bytes 0 x = []"
| "le_bytes (Suc n) x = of_int x # le_bytes n (x div 256)"

definition bytes_of :: "string \<Rightarrow> byte list" where
  "bytes_of s = map (\<lambda>c. of_nat (of_char c)) s"

text \<open>
  Number of bytes of \<^verbatim>\<open>LONG1\<close>: \<^verbatim>\<open>(bit_length >> 3) + 1\<close>, one less for a negative
  number whose top byte is \<^verbatim>\<open>0xff\<close> under a byte with the sign bit set.
\<close>

function bit_length :: "int \<Rightarrow> nat" where
  "bit_length n = (if n \<le> 0 then 0 else Suc (bit_length (n div 2)))"
  by pat_completeness auto
termination
  by (relation "measure nat") auto

declare bit_length.simps [simp del]

definition long_nbytes :: "int \<Rightarrow> nat" where
  "long_nbytes x =
     (let n = bit_length \<bar>x\<bar> div 8 + 1;
          bs = le_bytes n x
      in if x < 0 \<and> 1 < n \<and> bs ! (n - 1) = 0xFF \<and> bs ! (n - 2) AND 0x80 \<noteq> 0
         then n - 1 else n)"

text \<open>
  One value: \<^verbatim>\<open>NONE\<close>, \<^verbatim>\<open>NEWTRUE\<close>/\<^verbatim>\<open>NEWFALSE\<close>, \<^verbatim>\<open>BININT1\<close>, \<^verbatim>\<open>BININT2\<close>, \<^verbatim>\<open>BININT\<close>
  or \<^verbatim>\<open>LONG1\<close> for an integer, \<^verbatim>\<open>SHORT_BINUNICODE\<close> or \<^verbatim>\<open>BINUNICODE\<close> followed by
  \<^verbatim>\<open>MEMOIZE\<close> for a string. \<^verbatim>\<open>None\<close> stands for a value outside the fragment (an
  integer of more than 255 bytes, a string of 4 GiB).
\<close>

definition pickle_int :: "int \<Rightarrow> byte list option" where
  "pickle_int i =
     (if 0 \<le> i \<and> i < 256 then Some (0x4B # le_bytes 1 i)
      else if 0 \<le> i \<and> i < 65536 then Some (0x4D # le_bytes 2 i)
      else if - 2147483648 \<le> i \<and> i < 2147483648 then Some (0x4A # le_bytes 4 i)
      else if int (long_nbytes i) < 256
           then Some (0x8A # of_nat (long_nbytes i) # le_bytes (long_nbytes i) i)
      else None)"

definition pickle_str :: "string \<Rightarrow> byte list option" where
  "pickle_str s =
     (if int (length s) < 256 then Some (0x8C # of_nat (length s) # bytes_of s @ [0x94])
      else if int (length s) < 4294967296
           then Some (0x58 # le_bytes 4 (int (length s)) @ bytes_of s @ [0x94])
      else None)"

fun pickle_pval :: "pval \<Rightarrow> byte list option" where
  "pickle_pval PNone = Some [0x4E]"
| "pickle_pval (PBool b) = Some [if b then 0x88 else 0x89]"
| "pickle_pval (PInt i) = pickle_int i"
| "pickle_pval (PStr s) = pickle_str s"

fun pickle_val :: "val \<Rightarrow> byte list option" where
  "pickle_val (Plain v) = pickle_pval v"
| "pickle_val (Obj e) = None"

fun pickle_items :: "(string, val) dict \<Rightarrow> byte list option" where
  "pickle_items [] = Some []"
| "pickle_items ((k, v) # d) =
     (case (pickle_str k, pickle_val v, pickle_items d) of
        (Some a, Some b, Some c) \<Rightarrow> Some (a @ b @ c)
      | _ \<Rightarrow> None)"

text \<open>
  A dictionary: \<^verbatim>\<open>EMPTY_DICT MEMOIZE\<close>, then nothing for no item, the item and \<^verbatim>\<open>SETITEM\<close>
  for one item, \<^verbatim>\<open>MARK\<close> items \<^verbatim>\<open>SETITEMS\<close> for up to 999 items (one batch).
\<close>

definition pickle_dict :: "(string, val) dict \<Rightarrow> byte list option" where
  "pickle_dict d =
     (case pickle_items d of
        None \<Rightarrow> None
      | Some bs \<Rightarrow>
          if length d = 0 then Some [0x7D, 0x94]
          else if length d = 1 then Some ([0x7D, 0x94] @ bs @ [0x73])
          else if int (length d) < 1000 then Some ([0x7D, 0x94, 0x28] @ bs @ [0x75])
          else None)"

text \<open>
  \<^verbatim>\<open>pickle.dumps((attr, rel))\<close>: \<^verbatim>\<open>PROTO 4\<close>, one \<^verbatim>\<open>FRAME\<close> with the length of the rest,
  the two dictionaries (two distinct objects), \<^verbatim>\<open>TUPLE2 MEMOIZE STOP\<close>. A payload of
  64 KiB or more is split into several frames and is outside the fragment. So is a pair
  of dictionaries in which a string occurs twice (as keys or values, \<open>dict_strs\<close>): the
  pickler writes the second occurrence of one and the same string object as a
  \<^verbatim>\<open>BINGET\<close> and that of an equal but different object in full, so that the stream is
  not determined by the content.
\<close>

fun dict_strs :: "(string, val) dict \<Rightarrow> string list" where
  "dict_strs [] = []"
| "dict_strs ((k, Plain (PStr s)) # d) = k # s # dict_strs d"
| "dict_strs ((k, v) # d) = k # dict_strs d"

definition pickle_dumps :: "(string, val) dict \<Rightarrow> (string, val) dict \<Rightarrow> byte list option" where
  "pickle_dumps attr rel =
     (if \<not> distinct (dict_strs attr @ dict_strs rel) then None
      else case (pickle_dict attr, pickle_dict rel) of
        (Some a, Some r) \<Rightarrow>
          (let payload = a @ r @ [0x86, 0x94, 0x2E]
           in if int (length payload) < 65536
              then Some ([0x80, 0x04, 0x95] @ le_bytes 8 (int (length payload)) @ payload)
              else None)
      | _ \<Rightarrow> None)"

text \<open>
  The digests that are not computed here are parameters: \<^verbatim>\<open>Site.gen_hash\<close> (a digest of
  name, relation name and attributes), Python's built-in \<^verbatim>\<open>hash\<close> of a string (the hash
  of a \<^verbatim>\<open>Resource\<close>, seeded per process), and \<^verbatim>\<open>Group.gen_hash\<close> on dictionaries outside
  the fragment above.
\<close>

record digests =
  site_gen_hash :: "string \<Rightarrow> string \<Rightarrow> (string, pval) dict \<Rightarrow> hash"
  str_hash :: "string \<Rightarrow> hash"
  object_gen_hash :: "(string, val) dict \<Rightarrow> (string, val) dict \<Rightarrow> hash"

definition gen_hash :: "digests \<Rightarrow> (string, val) dict \<Rightarrow> (string, val) dict \<Rightarrow> hash" where
  "gen_hash D attr rel =
     (case pickle_dumps attr rel of
        Some bs \<Rightarrow> uint (xxh64 bs)
      | None \<Rightarrow> object_gen_hash D attr rel)"

fun ent_get_hash :: "digests \<Rightarrow> ent \<Rightarrow> hash" where
  "ent_get_hash D (ESite s) = site_gen_hash D (name s) (rel_name s) (site_attr s)"
| "ent_get_hash D (ERes r) = str_hash D (name r)"

text \<open>
  The closed examples of this theory hold no \<^verbatim>\<open>Site\<close> or \<^verbatim>\<open>Resource\<close> object and stay
  inside the pickle fragment, so that no parameter is consulted; this instance fills
  the argument.
\<close>

definition plain_digests :: digests where
  "plain_digests =
     \<lparr> site_gen_hash = (\<lambda>n r a. 0), str_hash = (\<lambda>s. 0), object_gen_hash = (\<lambda>a r. 0) \<rparr>"


section \<open>Floating-point numbers\<close>

text \<open>Python's \<^verbatim>\<open>round\<close> on a float: to the nearest integer, a tie to the even one.\<close>

definition py_round :: "real \<Rightarrow> int" where
  "py_round x =
     (let f = \<lfloor>x\<rfloor>; d = x - of_int f
      in if d < 1 / 2 then f
         else if 1 / 2 < d then f + 1
         else if even f then f else f + 1)"

text \<open>
  A Python \<^verbatim>\<open>float\<close> is an IEEE 754 double. A finite double is modelled by the real number
  it denotes; infinities and NaN are outside the model. \<open>double x\<close> is the double nearest
  to \<open>x\<close>, a tie going to the even significand: with the exponent \<open>e\<close> of \<open>x\<close>
  (\<open>2 ^ e \<le> \<bar>x\<bar> < 2 ^ (e + 1)\<close>, and \<open>- 1022\<close> in the subnormal range) \<open>x\<close> is rounded to
  a multiple of \<open>2 ^ (e - 52)\<close>. The two searches find the exponent from 0 upwards or
  downwards. Each arithmetic operation of Python returns the double nearest to the
  exact result.
\<close>

function expo_up :: "int \<Rightarrow> real \<Rightarrow> int" where
  "expo_up e a = (if 1023 \<le> e \<or> a < 2 powi (e + 1) then e else expo_up (e + 1) a)"
  by pat_completeness auto
termination
  by (relation "measure (\<lambda>(e, a). nat (1023 - e))") auto

function expo_down :: "int \<Rightarrow> real \<Rightarrow> int" where
  "expo_down e a = (if e \<le> - 1022 \<or> 2 powi e \<le> a then e else expo_down (e - 1) a)"
  by pat_completeness auto
termination
  by (relation "measure (\<lambda>(e, a). nat (e + 1022))") auto

declare expo_up.simps [simp del] expo_down.simps [simp del]

definition expo :: "real \<Rightarrow> int" where
  "expo a = (if 1 \<le> a then expo_up 0 a else expo_down 0 a)"

definition double :: "real \<Rightarrow> real" where
  "double x =
     (if x = 0 then 0
      else (let a = \<bar>x\<bar>; u = 2 powi (expo a - 52)
            in sgn x * (of_int (py_round (a / u)) * u)))"

definition dadd :: "real \<Rightarrow> real \<Rightarrow> real" where
  "dadd a b = double (a + b)"

definition dsub :: "real \<Rightarrow> real \<Rightarrow> real" where
  "dsub a b = double (a - b)"

definition dmul :: "real \<Rightarrow> real \<Rightarrow> real" where
  "dmul a b = double (a * b)"


section \<open>Split specifications and mass splitting (entity.py, Group.split)\<close>

datatype error = GroupFrozenError | AttributeError | KeyError | ValueError | TypeError

record GroupSplitSpec =
  p :: real
  attr_set :: "(string, val) dict"
  attr_del :: "string list"
  rel_set :: "(string, val) dict"
  rel_del :: "string list"

text \<open>
  The constructor converts \<^verbatim>\<open>p\<close> with \<^verbatim>\<open>float\<close> and then validates it: a value outside
  [0,1] raises ValueError.
\<close>

definition is_prob :: "real \<Rightarrow> bool" where
  "is_prob x \<longleftrightarrow> \<not> (x < 0 \<or> x > 1)"

definition new_GroupSplitSpec ::
  "real \<Rightarrow> (string, val) dict \<Rightarrow> string list \<Rightarrow> (string, val) dict \<Rightarrow> string list
     \<Rightarrow> error + GroupSplitSpec" where
  "new_GroupSplitSpec x a_set a_del r_set r_del =
     (if double x < 0 \<or> double x > 1 then Inl ValueError
      else Inr \<lparr> p = double x, attr_set = a_set, attr_del = a_del, rel_set = r_set,
                 rel_del = r_del \<rparr>)"

text \<open>
  Step (1) of \<^verbatim>\<open>Group.split\<close>: the loop over \<^verbatim>\<open>enumerate(specs)\<close> that fills \<^verbatim>\<open>m_lst\<close>.
  The arguments are the source mass, the specs not yet visited and the running
  \<^verbatim>\<open>p_sum\<close> and \<^verbatim>\<open>m_sum\<close>. The last spec gets \<^verbatim>\<open>self.m - m_sum\<close>; an earlier spec gets
  \<^verbatim>\<open>self.m * s.p\<close>, and when the float \<^verbatim>\<open>p_sum\<close> then equals \<^verbatim>\<open>1.0\<close> the loop breaks and
  the entries of the specs after it keep their initial \<^verbatim>\<open>0.0\<close>.
\<close>

fun split_masses :: "real \<Rightarrow> GroupSplitSpec list \<Rightarrow> real \<Rightarrow> real \<Rightarrow> real list" where
  "split_masses gm [] p_sum m_sum = []"
| "split_masses gm [s] p_sum m_sum = [dsub gm m_sum]"
| "split_masses gm (s # s' # ss) p_sum m_sum =
     dmul gm (p s) #
     (if dadd p_sum (p s) = 1 then replicate (length (s' # ss)) 0
      else split_masses gm (s' # ss) (dadd p_sum (p s)) (dadd m_sum (dmul gm (p s))))"

text \<open>The probabilities the loop assigns (\<^verbatim>\<open>p\<close> in the source), for the specs it visits.\<close>

fun split_probs :: "GroupSplitSpec list \<Rightarrow> real \<Rightarrow> real list" where
  "split_probs [] p_sum = []"
| "split_probs [s] p_sum = [dsub 1 p_sum]"
| "split_probs (s # s' # ss) p_sum =
     p s # (if dadd p_sum (p s) = 1 then [] else split_probs (s' # ss) (dadd p_sum (p s)))"






section \<open>Groups and the population they belong to\<close>

text \<open>
  A \<^verbatim>\<open>Group\<close> has a name (possibly \<^verbatim>\<open>None\<close>), a mass (the constructor stores
  \<^verbatim>\<open>float(m)\<close>), the attribute and relation
  dictionaries, the back reference \<^verbatim>\<open>pop\<close> and the lazily computed hash. The back
  reference is only ever tested for being set and followed to the one population, which
  the functions below take as an argument: \<open>g_pop\<close> says whether it is set. The fields
  \<^verbatim>\<open>is_enc\<close>, \<^verbatim>\<open>attr_enc\<close> and \<^verbatim>\<open>rel_enc\<close> are left out: no code of the sources sets
  \<^verbatim>\<open>is_enc\<close> to True.
\<close>

record group =
  g_name :: "string option"
  g_m :: real
  g_attr :: "(string, val) dict"
  g_rel :: "(string, val) dict"
  g_pop :: bool
  g_hash :: "hash option"

definition Group ::
  "string option \<Rightarrow> real \<Rightarrow> (string, val) dict \<Rightarrow> (string, val) dict \<Rightarrow> group" where
  "Group nm gm a r =
     \<lparr> g_name = nm, g_m = double gm, g_attr = a, g_rel = r, g_pop = False, g_hash = None \<rparr>"

text \<open>\<^verbatim>\<open>Group.__hash__\<close>: the cached value, computed on first use.\<close>

definition get_hash :: "digests \<Rightarrow> group \<Rightarrow> hash" where
  "get_hash D g = (case g_hash g of Some h \<Rightarrow> h | None \<Rightarrow> gen_hash D (g_attr g) (g_rel g))"

definition cache_hash :: "digests \<Rightarrow> group \<Rightarrow> group" where
  "cache_hash D g = g\<lparr>g_hash := Some (get_hash D g)\<rparr>"

text \<open>
  \<^verbatim>\<open>Group.is_void\<close> is \<^verbatim>\<open>has_attr({'__void__': True})\<close>, that is
  \<^verbatim>\<open>qry.items() <= self.attr.items()\<close>: the attribute is present and equal to \<^verbatim>\<open>True\<close>.
\<close>

definition is_void :: "group \<Rightarrow> bool" where
  "is_void g =
     (case dict_get (g_attr g) ''__void__'' of
        Some (Plain v) \<Rightarrow> pval_eq v (PBool True)
      | _ \<Rightarrow> False)"

text \<open>
  \<^verbatim>\<open>GroupPopulation\<close>: the dictionaries of groups, sites, resources and VITA groups, keyed
  by hash, the mass totals, the frozen flag and the two entries of \<^verbatim>\<open>last_iter\<close> that the
  code reads or writes. \<open>fractional_mass\<close> is the answer of
  \<^verbatim>\<open>self.sim.get_pragma_fractional_mass()\<close>, a method that \<^verbatim>\<open>Group.split\<close> calls and that
  the sources do not define. The history, the query caches and the membership sets of
  the sites are not modelled.
\<close>

record population =
  groups :: "(hash, group) dict"
  sites :: "(hash, ent) dict"
  resources :: "(hash, ent) dict"
  vita_groups :: "(hash, group) dict"
  pop_m :: real
  m_in :: real
  m_out :: real
  is_frozen :: bool
  fractional_mass :: bool
  mass_flow_tot :: real
  m_flow_tot :: real

definition GroupPopulation :: "bool \<Rightarrow> population" where
  "GroupPopulation fm =
     \<lparr> groups = [], sites = [], resources = [], vita_groups = [],
       pop_m = 0, m_in = 0, m_out = 0, is_frozen = False, fractional_mass = fm,
       mass_flow_tot = 0, m_flow_tot = 0 \<rparr>"

definition add_site :: "digests \<Rightarrow> population \<Rightarrow> ent \<Rightarrow> population" where
  "add_site D P e =
     (let h = ent_get_hash D e
      in if h \<in> set (map fst (sites P)) then P
         else P\<lparr>sites := dict_set (sites P) h e\<rparr>)"

definition add_resource :: "digests \<Rightarrow> population \<Rightarrow> ent \<Rightarrow> population" where
  "add_resource D P e =
     (let h = ent_get_hash D e
      in if h \<in> set (map fst (resources P)) then P
         else P\<lparr>resources := dict_set (resources P) h e\<rparr>)"





section \<open>Mutating a group (entity.py, Group.set_attr and Group.set_rel)\<close>

text \<open>
  A call that may raise returns the exception, if any, together with the state it leaves
  behind: an exception does not undo the assignments made before it.
\<close>

text \<open>
  \<^verbatim>\<open>Group.link_to_site_at\<close>: when the relation \<^verbatim>\<open>'@'\<close> is present and truthy and the group
  is bound to a population, the site is looked up by \<^verbatim>\<open>self.pop.sites[at]\<close> (KeyError
  when the key is missing; a string or an object never equals an integer key) and
  \<^verbatim>\<open>add_group_link\<close> is called on it, a method that only \<^verbatim>\<open>Site\<close> has (AttributeError
  for a \<^verbatim>\<open>Resource\<close> stored there). \<^verbatim>\<open>add_group_link\<close> adds the group to the set of the
  site, which hashes the group and so fills its hash cache; the set itself and the mass
  of the site are not modelled.
\<close>

definition link_to_site_at :: "digests \<Rightarrow> population \<Rightarrow> group \<Rightarrow> error option \<times> group" where
  "link_to_site_at D P g =
     (case dict_get (g_rel g) ''@'' of
        None \<Rightarrow> (None, g)
      | Some site_at \<Rightarrow>
          if truthy site_at \<and> g_pop g then
            (case site_at of
               Obj e \<Rightarrow> (Some KeyError, g)
             | Plain v \<Rightarrow>
                 (case pval_int v of
                    None \<Rightarrow> (Some KeyError, g)
                  | Some h \<Rightarrow>
                      (case dict_get (sites P) h of
                         None \<Rightarrow> (Some KeyError, g)
                       | Some (ERes r) \<Rightarrow> (Some AttributeError, g)
                       | Some (ESite s) \<Rightarrow> (None, cache_hash D g))))
          else (None, g))"

definition set_attr :: "group \<Rightarrow> string \<Rightarrow> val \<Rightarrow> bool \<Rightarrow> error option \<times> group" where
  "set_attr g nm v do_force =
     (if g_pop g \<and> \<not> do_force then (Some GroupFrozenError, g)
      else (None, g\<lparr>g_attr := dict_set (g_attr g) nm v, g_hash := None\<rparr>))"

text \<open>
  \<^verbatim>\<open>set_rel\<close> on a group bound to a population (with \<^verbatim>\<open>do_force\<close>) stores
  \<^verbatim>\<open>value.get_hash()\<close>, which only an entity has, and links the group to its site when the
  relation is \<^verbatim>\<open>'@'\<close>.
\<close>

definition set_rel ::
  "digests \<Rightarrow> population \<Rightarrow> group \<Rightarrow> string \<Rightarrow> val \<Rightarrow> bool \<Rightarrow> error option \<times> group" where
  "set_rel D P g nm v do_force =
     (if g_pop g \<and> \<not> do_force then (Some GroupFrozenError, g)
      else if \<not> g_pop g then (None, g\<lparr>g_rel := dict_set (g_rel g) nm v, g_hash := None\<rparr>)
      else (case v of
              Plain x \<Rightarrow> (Some AttributeError, g)
            | Obj e \<Rightarrow>
                (let g' = g\<lparr>g_rel := dict_set (g_rel g) nm (Plain (PInt (ent_get_hash D e))),
                            g_hash := None\<rparr>
                 in if nm = ''@'' then link_to_site_at D P g' else (None, g'))))"


section \<open>Population registry (pop.py, GroupPopulation)\<close>

text \<open>
  Modelled from the spec: \<^verbatim>\<open>Group.freeze\<close> is called by \<^verbatim>\<open>add_group\<close> and is not defined
  in the sources. The specification has \<^verbatim>\<open>add_group\<close> mark the group as registered
  (mutation-protected); the setters test \<^verbatim>\<open>self.pop\<close>, which \<^verbatim>\<open>add_group\<close> has set just
  before, so that nothing is left for \<^verbatim>\<open>freeze\<close> to change in the fields modelled here.
\<close>

definition freeze :: "group \<Rightarrow> group" where
  "freeze g = g"

text \<open>
  The loop of \<^verbatim>\<open>add_group\<close> over \<^verbatim>\<open>group.rel.items()\<close>. A \<^verbatim>\<open>Site\<close> is added to the sites
  and, being a \<^verbatim>\<open>Resource\<close> too, to the resources; a \<^verbatim>\<open>Resource\<close> to the resources; the
  relation value becomes the hash.
\<close>

fun register_rel ::
  "digests \<Rightarrow> population \<Rightarrow> (string, val) dict \<Rightarrow> population \<times> (string, val) dict" where
  "register_rel D P [] = (P, [])"
| "register_rel D P ((k, Obj (ESite s)) # d) =
     (case register_rel D (add_resource D (add_site D P (ESite s)) (ESite s)) d of
        (P', r) \<Rightarrow> (P', (k, Plain (PInt (ent_get_hash D (ESite s)))) # r))"
| "register_rel D P ((k, Obj (ERes x)) # d) =
     (case register_rel D (add_resource D P (ERes x)) d of
        (P', r) \<Rightarrow> (P', (k, Plain (PInt (ent_get_hash D (ERes x)))) # r))"
| "register_rel D P ((k, Plain v) # d) =
     (case register_rel D P d of (P', r) \<Rightarrow> (P', (k, Plain v) # r))"

text \<open>
  \<^verbatim>\<open>GroupPopulation.add_group\<close>. The population mass grows unless the population is
  frozen. A group whose hash is registered gives its mass to the registered group;
  otherwise its relations are resolved, it is bound to the population and stored under
  its hash (computed before the relations are rewritten, and cached).
\<close>

definition add_group :: "digests \<Rightarrow> population \<Rightarrow> group \<Rightarrow> error option \<times> population" where
  "add_group D P g =
     (let P1 = (if \<not> is_frozen P then P\<lparr>pop_m := dadd (pop_m P) (g_m g)\<rparr> else P);
          group_hash = get_hash D g
      in case dict_get (groups P1) group_hash of
           Some g0 \<Rightarrow>
             (None, P1\<lparr>groups := dict_set (groups P1) group_hash
                                       (g0\<lparr>g_m := dadd (g_m g0) (g_m g)\<rparr>)\<rparr>)
         | None \<Rightarrow>
             (case register_rel D P1 (g_rel g) of
                (P2, r) \<Rightarrow>
                  (let g' = freeze (g\<lparr>g_rel := r, g_pop := True, g_hash := Some group_hash\<rparr>)
                   in case link_to_site_at D P2 g' of
                        (Some e, g'') \<Rightarrow> (Some e, P2)
                      | (None, g'') \<Rightarrow>
                          (None, P2\<lparr>groups := dict_set (groups P2) group_hash g''\<rparr>))))"

definition add_vita_group :: "digests \<Rightarrow> population \<Rightarrow> group \<Rightarrow> population" where
  "add_vita_group D P g =
     (case dict_get (vita_groups P) (get_hash D g) of
        Some g0 \<Rightarrow>
          P\<lparr>vita_groups := dict_set (vita_groups P) (get_hash D g)
                              (g0\<lparr>g_m := dadd (g_m g0) (g_m g)\<rparr>)\<rparr>
      | None \<Rightarrow>
          P\<lparr>vita_groups := dict_set (vita_groups P) (get_hash D g) (cache_hash D g)\<rparr>)"

text \<open>
  \<^verbatim>\<open>GroupPopulation.do_post_iter\<close>, part (1): the loop that debits the mass of every VOID
  group, followed by the removal of the VOID groups.
\<close>

fun debit_void :: "population \<Rightarrow> (hash, group) dict \<Rightarrow> population" where
  "debit_void P [] = P"
| "debit_void P ((k, v) # d) =
     (if is_void v
      then debit_void (P\<lparr>pop_m := dsub (pop_m P) (g_m v), m_out := dadd (m_out P) (g_m v)\<rparr>) d
      else debit_void P d)"

text \<open>
  Part (2): the loop over the VITA groups. Each step credits the mass and then adds it to
  \<^verbatim>\<open>self.groups[k]\<close>, which raises KeyError when no group is registered under \<^verbatim>\<open>k\<close>.
\<close>

fun credit_vita :: "population \<Rightarrow> (hash, group) dict \<Rightarrow> error option \<times> population" where
  "credit_vita P [] = (None, P)"
| "credit_vita P ((k, v) # d) =
     (let P1 = P\<lparr>pop_m := dadd (pop_m P) (g_m v), m_in := dadd (m_in P) (g_m v)\<rparr>
      in case dict_get (groups P1) k of
           None \<Rightarrow> (Some KeyError, P1)
         | Some g0 \<Rightarrow>
             credit_vita (P1\<lparr>groups := dict_set (groups P1) k
                                           (g0\<lparr>g_m := dadd (g_m g0) (g_m v)\<rparr>)\<rparr>) d)"

definition do_post_iter :: "population \<Rightarrow> error option \<times> population" where
  "do_post_iter P =
     (let P1 = (debit_void P (groups P))\<lparr>groups := filter (\<lambda>kv. \<not> is_void (snd kv)) (groups P)\<rparr>
      in case credit_vita P1 (vita_groups P1) of
           (Some e, P2) \<Rightarrow> (Some e, P2)
         | (None, P2) \<Rightarrow> (None, P2\<lparr>vita_groups := []\<rparr>))"

text \<open>The masses of the VOID groups, of all VITA groups and of the VITA groups for one hash.\<close>

definition void_masses :: "population \<Rightarrow> real list" where
  "void_masses P = map (\<lambda>kv. g_m (snd kv)) (filter (\<lambda>kv. is_void (snd kv)) (groups P))"

definition vita_masses :: "population \<Rightarrow> real list" where
  "vita_masses P = map (\<lambda>kv. g_m (snd kv)) (vita_groups P)"

definition vita_masses_for :: "population \<Rightarrow> hash \<Rightarrow> real list" where
  "vita_masses_for P k =
     map (\<lambda>kv. g_m (snd kv)) (filter (\<lambda>kv. fst kv = k) (vita_groups P))"


section \<open>Example inputs\<close>

text \<open>
  The group of the demonstration at the end of \<^verbatim>\<open>entity.py\<close> (mass 200, attributes
  \<^verbatim>\<open>{'sex': 'f', 'income': 'l'}\<close>, relation \<^verbatim>\<open>{'location': 'home'}\<close>), registered in a
  population that rounds masses, with the two split specs of that demonstration.
\<close>

definition ex_g1 :: group where
  "ex_g1 =
     \<lparr> g_name = Some ''g.1'', g_m = 200,
       g_attr = [(''sex'', Plain (PStr ''f'')), (''income'', Plain (PStr ''l''))],
       g_rel = [(''location'', Plain (PStr ''home''))],
       g_pop = True, g_hash = Some 1595748046465698464 \<rparr>"

definition ex_pop1 :: population where
  "ex_pop1 = (GroupPopulation False)
     \<lparr> groups := [(1595748046465698464, ex_g1)], pop_m := 200, is_frozen := True \<rparr>"

definition ex_spec_a :: GroupSplitSpec where
  "ex_spec_a =
     \<lparr> p = double (1416 / 10000), attr_set = [], attr_del = [''income''], rel_set = [],
       rel_del = [] \<rparr>"

definition ex_spec_b :: GroupSplitSpec where
  "ex_spec_b =
     \<lparr> p = 0, attr_set = [], attr_del = [],
       rel_set = [(''location'', Plain (PStr ''work''))], rel_del = [] \<rparr>"

text \<open>A spec that moves everything, followed by specs that are never reached.\<close>

definition ex_spec_all :: GroupSplitSpec where
  "ex_spec_all =
     \<lparr> p = 1, attr_set = [(''sex'', Plain (PStr ''m''))], attr_del = [], rel_set = [],
       rel_del = [] \<rparr>"

text \<open>
  A registered group of mass 2.5 with attributes \<^verbatim>\<open>{'flu': 's'}\<close> in a population that
  rounds masses, and two specs: half of the mass becomes \<^verbatim>\<open>{'flu': 'i'}\<close>, the rest stays.
\<close>

definition ex_g_half :: group where
  "ex_g_half =
     \<lparr> g_name = Some ''g.0'', g_m = 5 / 2,
       g_attr = [(''flu'', Plain (PStr ''s''))], g_rel = [],
       g_pop = True, g_hash = Some 2607416895433047269 \<rparr>"





text \<open>
  A frozen population of a susceptible group of mass 100 and a VOID group of mass 30
  (a susceptible group after \<^verbatim>\<open>attr_set = Group.VOID\<close>), with a pending VITA group of mass
  7 for the susceptible content.
\<close>

definition ex_g_s :: group where
  "ex_g_s =
     \<lparr> g_name = Some ''g.0'', g_m = 100,
       g_attr = [(''flu'', Plain (PStr ''s''))], g_rel = [],
       g_pop = True, g_hash = Some 2607416895433047269 \<rparr>"

definition ex_g_void :: group where
  "ex_g_void =
     \<lparr> g_name = Some ''g.0'', g_m = 30,
       g_attr = [(''flu'', Plain (PStr ''s'')), (''__void__'', Plain (PBool True))], g_rel = [],
       g_pop = True, g_hash = Some 9083465094928144936 \<rparr>"

definition ex_g_vita :: group where
  "ex_g_vita =
     \<lparr> g_name = None, g_m = 7,
       g_attr = [(''flu'', Plain (PStr ''s''))], g_rel = [],
       g_pop = False, g_hash = Some 2607416895433047269 \<rparr>"

definition ex_pop_vv :: population where
  "ex_pop_vv = (GroupPopulation True)
     \<lparr> groups := [(2607416895433047269, ex_g_s), (9083465094928144936, ex_g_void)],
       vita_groups := [(2607416895433047269, ex_g_vita)],
       pop_m := 130, is_frozen := True \<rparr>"

text \<open>An empty population to which one VITA group has been added.\<close>

definition ex_pop_vita_only :: population where
  "ex_pop_vita_only = (GroupPopulation True) \<lparr> vita_groups := [(2607416895433047269, ex_g_vita)] \<rparr>"







section \<open>Properties of resources\<close>

lemma capacity_inv_allocate_all:
  "0 \<le> n \<Longrightarrow> capacity_inv r \<Longrightarrow> capacity_inv (fst (allocate_all r n))"
  by (simp add: capacity_inv_def allocate_all_def)

lemma capacity_inv_release:
  "0 \<le> n \<Longrightarrow> capacity_inv r \<Longrightarrow> capacity_inv (release r n)"
  by (auto simp: capacity_inv_def release_def)

lemma capacity_inv_calls_without_any:
  "capacity_inv r \<Longrightarrow> \<forall>c \<in> set cs. 0 \<le> call_arg c \<and> \<not> is_allocate_any c \<Longrightarrow>
   capacity_inv (resource_calls r cs)"
  unfolding resource_calls_def
proof (induction cs arbitrary: r)
  case Nil
  then show ?case by simp
next
  case (Cons c cs)
  have "capacity_inv (resource_step r c)"
    using Cons.prems
    by (cases c) (simp_all add: capacity_inv_allocate_all capacity_inv_release)
  then show ?case using Cons by simp
qed

text \<open>
  C8. \<^verbatim>\<open>allocate_all(n)\<close> with \<open>n \<ge> 0\<close> is all-or-nothing: when
  \<open>capacity + n \<le> capacity_max\<close> it returns True and the capacity grows by exactly \<open>n\<close>
  (name and maximum untouched); otherwise it returns False and the resource is unchanged.
\<close>

theorem allocate_all_all_or_nothing:
  assumes "0 \<le> n"
  shows "(capacity r + n \<le> capacity_max r \<longrightarrow>
            snd (allocate_all r n) = True \<and>
            capacity (fst (allocate_all r n)) = capacity r + n \<and>
            capacity_max (fst (allocate_all r n)) = capacity_max r \<and>
            name (fst (allocate_all r n)) = name r) \<and>
         (\<not> capacity r + n \<le> capacity_max r \<longrightarrow>
            snd (allocate_all r n) = False \<and> fst (allocate_all r n) = r)"
  by (simp add: allocate_all_def)

theorem allocate_all_all_or_nothing_witness:
  "snd (allocate_all \<lparr> name = ''bus'', capacity = 3, capacity_max = 5 \<rparr> 2) = True \<and>
   capacity (fst (allocate_all \<lparr> name = ''bus'', capacity = 3, capacity_max = 5 \<rparr> 2)) = 5 \<and>
   snd (allocate_all \<lparr> name = ''bus'', capacity = 3, capacity_max = 5 \<rparr> 3) = False \<and>
   fst (allocate_all \<lparr> name = ''bus'', capacity = 3, capacity_max = 5 \<rparr> 3)
     = \<lparr> name = ''bus'', capacity = 3, capacity_max = 5 \<rparr>"
  using allocate_all_all_or_nothing
          [of 2 "\<lparr> name = ''bus'', capacity = 3, capacity_max = 5 \<rparr>"]
        allocate_all_all_or_nothing
          [of 3 "\<lparr> name = ''bus'', capacity = 3, capacity_max = 5 \<rparr>"]
  by simp

text \<open>
  C10. The invariant \<open>0 \<le> capacity \<le> capacity_max\<close> does not survive \<^verbatim>\<open>allocate_any\<close>:
  on a fresh resource of maximum 5, \<^verbatim>\<open>allocate_any(7)\<close> leaves the capacity at \<open>-2\<close>, and
  two calls \<^verbatim>\<open>allocate_any(0)\<close> leave it at 10.
\<close>

theorem allocate_any_breaks_capacity_inv:
  "capacity_inv (Resource ''bus'' 5) \<and>
   capacity (resource_calls (Resource ''bus'' 5) [Allocate_any 7]) = - 2 \<and>
   \<not> capacity_inv (resource_calls (Resource ''bus'' 5) [Allocate_any 7]) \<and>
   capacity (resource_calls (Resource ''bus'' 5) [Allocate_any 0, Allocate_any 0]) = 10 \<and>
   \<not> capacity_inv (resource_calls (Resource ''bus'' 5) [Allocate_any 0, Allocate_any 0])"
  by (simp add: capacity_inv_def resource_calls_def Resource_def allocate_any_def)


section \<open>Properties of the content hash\<close>

text \<open>The cached hashes of the example groups are the digests of their content.\<close>

lemma ex_g1_hash: "get_hash plain_digests (ex_g1\<lparr>g_hash := None\<rparr>) = the (g_hash ex_g1)"
  unfolding get_hash_def ex_g1_def by code_simp

lemma ex_g_half_hash:
  "get_hash plain_digests (ex_g_half\<lparr>g_hash := None\<rparr>) = the (g_hash ex_g_half)"
  unfolding get_hash_def ex_g_half_def by code_simp


lemma gen_hash_run_independent:
  "pickle_dumps attr rel = Some bs \<Longrightarrow> gen_hash D attr rel = gen_hash D' attr rel"
  by (simp add: gen_hash_def)

lemma gen_hash_ab: 
  "gen_hash plain_digests [(''a'', Plain (PInt 1)), (''b'', Plain (PInt 2))] []
     = 11579288591346492739"
  by code_simp

lemma gen_hash_ba: 
  "gen_hash plain_digests [(''b'', Plain (PInt 2)), (''a'', Plain (PInt 1))] []
     = 14030715113975240739"
  by code_simp

text \<open>
  C4. The hash depends on the insertion order: the attribute dictionaries
  \<^verbatim>\<open>{'a': 1, 'b': 2}\<close> and \<^verbatim>\<open>{'b': 2, 'a': 1}\<close> hold the same items and, with empty
  relations, hash to different values. (On dictionaries of plain values the hash is the
  same in every run: no parameter is consulted, see \<open>gen_hash_run_independent\<close>.)
\<close>

theorem gen_hash_insertion_order:
  "(\<forall>k. dict_get [(''a'', Plain (PInt 1)), (''b'', Plain (PInt 2))] k
         = dict_get [(''b'', Plain (PInt 2)), (''a'', Plain (PInt 1))] k) \<and>
   gen_hash plain_digests [(''a'', Plain (PInt 1)), (''b'', Plain (PInt 2))] []
     = 11579288591346492739 \<and>
   gen_hash plain_digests [(''b'', Plain (PInt 2)), (''a'', Plain (PInt 1))] []
     = 14030715113975240739 \<and>
   gen_hash plain_digests [(''a'', Plain (PInt 1)), (''b'', Plain (PInt 2))] []
     \<noteq> gen_hash plain_digests [(''b'', Plain (PInt 2)), (''a'', Plain (PInt 1))] []"
  by (simp add: gen_hash_ab gen_hash_ba dict_get_def)


section \<open>Properties of floating-point numbers\<close>

lemma expo_up_stop: "1023 \<le> e \<or> a < 2 powi (e + 1) \<Longrightarrow> expo_up e a = e"
  by (subst expo_up.simps) simp

lemma expo_up_step:
  "\<not> (1023 \<le> e \<or> a < 2 powi (e + 1)) \<Longrightarrow> expo_up e a = expo_up (e + 1) a"
  by (subst expo_up.simps) simp

lemma expo_down_stop: "e \<le> - 1022 \<or> 2 powi e \<le> a \<Longrightarrow> expo_down e a = e"
  by (subst expo_down.simps) simp

lemma expo_down_step:
  "\<not> (e \<le> - 1022 \<or> 2 powi e \<le> a) \<Longrightarrow> expo_down e a = expo_down (e - 1) a"
  by (subst expo_down.simps) simp

lemmas expo_eval = expo_up_stop expo_up_step expo_down_stop expo_down_step

lemma powi_mono2: "i \<le> j \<Longrightarrow> (2::real) powi i \<le> 2 powi j"
  by (rule power_int_increasing) simp_all

lemma powi_Suc2: "(2::real) powi (e + 1) = 2 * 2 powi e"
  by (simp add: power_int_add)

lemma expo_up_eqI:
  "e \<le> e' \<Longrightarrow> e' \<le> 1023 \<Longrightarrow> 2 powi e' \<le> a \<Longrightarrow> (e' < 1023 \<Longrightarrow> a < 2 powi (e' + 1))
   \<Longrightarrow> expo_up e a = e'"
proof (induction e a rule: expo_up.induct)
  case (1 e a)
  show ?case
  proof (cases "e = e'")
    case True
    then show ?thesis using "1.prems" by (cases "e' < 1023") (auto intro: expo_up_stop)
  next
    case False
    then have lt: "e + 1 \<le> e'" using "1.prems" by simp
    have "2 powi (e + 1) \<le> (2::real) powi e'" using lt by (rule powi_mono2)
    then have ns: "\<not> (1023 \<le> e \<or> a < 2 powi (e + 1))" using "1.prems" lt by auto
    have "expo_up (e + 1) a = e'"
      using "1.prems" ns lt by (intro "1.IH") auto
    then show ?thesis using ns by (simp add: expo_up_step)
  qed
qed

lemma expo_down_eqI:
  "e' \<le> e \<Longrightarrow> - 1022 \<le> e' \<Longrightarrow> a < 2 powi (e' + 1) \<Longrightarrow> (- 1022 < e' \<Longrightarrow> 2 powi e' \<le> a)
   \<Longrightarrow> expo_down e a = e'"
proof (induction e a rule: expo_down.induct)
  case (1 e a)
  show ?case
  proof (cases "e = e'")
    case True
    then show ?thesis using "1.prems" by (cases "e' = - 1022") (auto intro: expo_down_stop)
  next
    case False
    then have lt: "e' + 1 \<le> e" using "1.prems" by simp
    have "2 powi (e' + 1) \<le> (2::real) powi e" using lt by (rule powi_mono2)
    then have ns: "\<not> (e \<le> - 1022 \<or> 2 powi e \<le> a)" using "1.prems" lt by auto
    have "expo_down (e - 1) a = e'"
      using "1.prems" ns lt by (intro "1.IH") auto
    then show ?thesis using ns by (simp add: expo_down_step)
  qed
qed

lemma expo_up_props:
  "e \<le> 1023 \<Longrightarrow> 2 powi e \<le> a \<Longrightarrow>
   e \<le> expo_up e a \<and> expo_up e a \<le> 1023 \<and> 2 powi (expo_up e a) \<le> a \<and>
   (expo_up e a < 1023 \<longrightarrow> a < 2 powi (expo_up e a + 1))"
proof (induction e a rule: expo_up.induct)
  case (1 e a)
  show ?case
  proof (cases "1023 \<le> e \<or> a < 2 powi (e + 1)")
    case True
    then show ?thesis using "1.prems" by (auto simp: expo_up_stop)
  next
    case False
    then have "e + 1 \<le> expo_up (e + 1) a \<and> expo_up (e + 1) a \<le> 1023 \<and>
       2 powi (expo_up (e + 1) a) \<le> a \<and>
       (expo_up (e + 1) a < 1023 \<longrightarrow> a < 2 powi (expo_up (e + 1) a + 1))"
      using "1.prems" False by (intro "1.IH") (auto simp: powi_Suc2)
    then show ?thesis using False by (simp add: expo_up_step)
  qed
qed

lemma expo_down_props:
  "- 1022 \<le> e \<Longrightarrow> a < 2 powi (e + 1) \<Longrightarrow>
   expo_down e a \<le> e \<and> - 1022 \<le> expo_down e a \<and> a < 2 powi (expo_down e a + 1) \<and>
   (- 1022 < expo_down e a \<longrightarrow> 2 powi (expo_down e a) \<le> a)"
proof (induction e a rule: expo_down.induct)
  case (1 e a)
  show ?case
  proof (cases "e \<le> - 1022 \<or> 2 powi e \<le> a")
    case True
    then show ?thesis using "1.prems" by (auto simp: expo_down_stop)
  next
    case False
    then have "expo_down (e - 1) a \<le> e - 1 \<and> - 1022 \<le> expo_down (e - 1) a \<and>
       a < 2 powi (expo_down (e - 1) a + 1) \<and>
       (- 1022 < expo_down (e - 1) a \<longrightarrow> 2 powi (expo_down (e - 1) a) \<le> a)"
      using "1.prems" False by (intro "1.IH") (auto simp: powi_Suc2)
    then show ?thesis using False by (simp add: expo_down_step)
  qed
qed

text \<open>The exponent of a positive number.\<close>

lemma expo_props:
  "- 1022 \<le> expo a \<and> expo a \<le> 1023 \<and>
   (- 1022 < expo a \<longrightarrow> 2 powi (expo a) \<le> a) \<and>
   (expo a < 1023 \<longrightarrow> a < 2 powi (expo a + 1))"
proof (cases "1 \<le> a")
  case True
  then show ?thesis using expo_up_props [of 0 a] by (simp add: expo_def)
next
  case False
  then show ?thesis using expo_down_props [of 0 a] by (simp add: expo_def)
qed

lemma expo_eqI:
  assumes "- 1022 \<le> e" "e \<le> 1023" "- 1022 < e \<Longrightarrow> 2 powi e \<le> a"
    "e < 1023 \<Longrightarrow> a < 2 powi (e + 1)"
  shows "expo a = e"
proof (cases "1 \<le> a")
  case True
  have e0: "0 \<le> e"
  proof (rule ccontr)
    assume "\<not> 0 \<le> e"
    then have "e + 1 \<le> 0" "e < 1023" by simp_all
    then have "2 powi (e + 1) \<le> (2::real) powi 0" by (intro powi_mono2)
    then show False using assms(4) [OF \<open>e < 1023\<close>] True by simp
  qed
  then show ?thesis using True assms by (auto simp: expo_def intro!: expo_up_eqI)
next
  case False
  have e0: "e \<le> 0"
  proof (rule ccontr)
    assume "\<not> e \<le> 0"
    then have "0 \<le> e" "- 1022 < e" by simp_all
    then have "2 powi 0 \<le> (2::real) powi e" by (intro powi_mono2)
    then show False using assms(3) [OF \<open>- 1022 < e\<close>] False by simp
  qed
  then show ?thesis using False assms by (auto simp: expo_def intro!: expo_down_eqI)
qed

lemma py_round_ge_floor: "\<lfloor>x\<rfloor> \<le> py_round x"
  by (simp add: py_round_def Let_def)

lemma py_round_le_ceiling: "py_round x \<le> \<lceil>x\<rceil>"
  unfolding py_round_def Let_def
  by (auto simp: ceiling_altdef frac_def dest!: sym)

lemma py_round_of_int: "py_round (of_int z) = z"
  by (simp add: py_round_def)


lemma py_round_mono_int: "of_int z \<le> x \<Longrightarrow> z \<le> py_round x"
proof -
  assume "of_int z \<le> x"
  then have "z \<le> \<lfloor>x\<rfloor>" by (simp add: le_floor_iff)
  then show ?thesis using py_round_ge_floor [of x] by linarith
qed

lemma py_round_le_int: "x \<le> of_int z \<Longrightarrow> py_round x \<le> z"
proof -
  assume "x \<le> of_int z"
  then have "\<lceil>x\<rceil> \<le> z" by (simp add: ceiling_le_iff)
  then show ?thesis using py_round_le_ceiling [of x] by linarith
qed

lemma double_0 [simp]: "double 0 = 0"
  by (simp add: double_def)

lemma double_minus: "double (- x) = - double x"
  by (simp add: double_def Let_def)

text \<open>The significand of a rounded number.\<close>

lemma double_pos:
  assumes "0 < a"
  shows "double a = of_int (py_round (a / 2 powi (expo a - 52))) * 2 powi (expo a - 52)"
  using assms by (simp add: double_def Let_def)


lemma sig_bounds:
  assumes "0 < a"
  defines "n \<equiv> py_round (a / 2 powi (expo a - 52))"
  shows "0 \<le> n" and "- 1022 < expo a \<Longrightarrow> 2 ^ 52 \<le> n" and "expo a < 1023 \<Longrightarrow> n \<le> 2 ^ 53"
proof -
  let ?u = "(2::real) powi (expo a - 52)"
  have u: "0 < ?u" by simp
  have "0 \<le> a / ?u" using assms by simp
  then show "0 \<le> n" unfolding n_def using py_round_mono_int [of 0] by simp
  show "2 ^ 52 \<le> n" if "- 1022 < expo a"
  proof -
    have "2 powi (expo a) \<le> a" using expo_props [of a] that by simp
    moreover have "(2::real) powi (expo a) = 2 ^ 52 * ?u"
      by (simp add: power_int_diff)
    ultimately have "of_int (2 ^ 52) \<le> a / ?u"
      using u by (simp add: pos_le_divide_eq)
    then show ?thesis unfolding n_def by (rule py_round_mono_int)
  qed
  show "n \<le> 2 ^ 53" if "expo a < 1023"
  proof -
    have "a < 2 powi (expo a + 1)" using expo_props [of a] that by simp
    moreover have "(2::real) powi (expo a + 1) = 2 ^ 53 * ?u"
      by (simp add: power_int_diff power_int_add)
    ultimately have "a / ?u \<le> of_int (2 ^ 53)"
      using u by (simp add: pos_divide_le_eq)
    then show ?thesis unfolding n_def by (rule py_round_le_int)
  qed
qed

text \<open>A multiple of the unit of its exponent range is a double.\<close>

lemma double_multiple:
  assumes e: "- 1022 \<le> e" "e \<le> 1023"
    and lo: "- 1022 < e \<Longrightarrow> 2 ^ 52 \<le> n"
    and hi: "e < 1023 \<Longrightarrow> n < 2 ^ 53"
    and n: "0 < n"
  shows "double (of_int n * 2 powi (e - 52)) = of_int n * 2 powi (e - 52)"
proof -
  let ?u = "(2::real) powi (e - 52)"
  let ?y = "of_int n * ?u"
  have u: "0 < ?u" by simp
  have y: "0 < ?y" using n by simp
  have "expo ?y = e"
  proof (rule expo_eqI)
    show "- 1022 \<le> e" "e \<le> 1023" by fact+
    show "2 powi e \<le> ?y" if "- 1022 < e"
    proof -
      have "(2::real) powi e = 2 ^ 52 * ?u" by (simp add: power_int_diff)
      moreover have "of_int (2 ^ 52) \<le> (of_int n :: real)"
        using lo [OF that] by (simp only: of_int_le_iff)
      then have "(2::real) ^ 52 \<le> of_int n" by simp
      ultimately show ?thesis using u by simp
    qed
    show "?y < 2 powi (e + 1)" if "e < 1023"
    proof -
      have "(2::real) powi (e + 1) = 2 ^ 53 * ?u" by (simp add: power_int_diff power_int_add)
      moreover have "of_int n < (of_int (2 ^ 53) :: real)"
        using hi [OF that] by (simp only: of_int_less_iff)
      then have "of_int n < (2::real) ^ 53" by simp
      ultimately show ?thesis using u by simp
    qed
  qed
  then show ?thesis using y by (simp add: double_pos py_round_of_int)
qed

lemma double_idem_pos:
  assumes "0 < a"
  shows "double (double a) = double a"
proof -
  define e where "e = expo a"
  define n where "n = py_round (a / 2 powi (e - 52))"
  have d: "double a = of_int n * 2 powi (e - 52)"
    using assms by (simp add: double_pos n_def e_def)
  have b: "0 \<le> n" "- 1022 < e \<Longrightarrow> 2 ^ 52 \<le> n" "e < 1023 \<Longrightarrow> n \<le> 2 ^ 53"
    using sig_bounds [OF assms] by (simp_all add: n_def e_def)
  have r: "- 1022 \<le> e" "e \<le> 1023" using expo_props [of a] by (simp_all add: e_def)
  show ?thesis
  proof (cases "n = 0")
    case True
    then show ?thesis by (simp add: d)
  next
    case False
    then have pos: "0 < n" using b(1) by simp
    show ?thesis
    proof (cases "e < 1023 \<and> n = 2 ^ 53")
      case True
      have "of_int n * 2 powi (e - 52) = of_int (2 ^ 52) * (2::real) powi ((e + 1) - 52)"
        using True by (simp add: power_int_diff power_int_add)
      moreover have "double (of_int (2 ^ 52) * 2 powi ((e + 1) - 52))
                     = of_int (2 ^ 52) * 2 powi ((e + 1) - 52)"
        using True r by (intro double_multiple) simp_all
      ultimately show ?thesis by (simp only: d)
    next
      case False
      have "double (of_int n * 2 powi (e - 52)) = of_int n * 2 powi (e - 52)"
        using False r b pos by (intro double_multiple) auto
      then show ?thesis by (simp only: d)
    qed
  qed
qed

lemma double_idem [simp]: "double (double x) = double x"
proof (cases "0 < x")
  case True
  then show ?thesis by (rule double_idem_pos)
next
  case False
  show ?thesis
  proof (cases "x = 0")
    case True
    then show ?thesis by simp
  next
    case False
    then have "0 < - x" using \<open>\<not> 0 < x\<close> by simp
    then have "double (double (- x)) = double (- x)" by (rule double_idem_pos)
    then show ?thesis by (simp add: double_minus)
  qed
qed


lemma expo_nonneg: "1 \<le> a \<Longrightarrow> 0 \<le> expo a"
  using expo_up_props [of 0 a] by (simp add: expo_def)


text \<open>Integers up to \<open>2 ^ 53\<close> are doubles.\<close>

lemma double_of_int_pos:
  assumes "0 < n" "n \<le> 2 ^ 53"
  shows "double (of_int n) = of_int n"
proof -
  let ?a = "of_int n :: real"
  have a1: "1 \<le> ?a" using assms(1) by simp
  have a: "0 < ?a" using assms(1) by simp
  have e0: "0 \<le> expo ?a" using a1 by (rule expo_nonneg)
  have lo: "2 powi (expo ?a) \<le> ?a" using expo_props [of ?a] e0 by simp
  have "?a \<le> of_int (2 ^ 53)" using assms(2) by (simp only: of_int_le_iff)
  then have hi: "?a \<le> 2 ^ 53" by simp
  have e53: "expo ?a \<le> 53"
  proof (rule ccontr)
    assume "\<not> expo ?a \<le> 53"
    then have "54 \<le> expo ?a" by simp
    then have "(2::real) powi 54 \<le> 2 powi (expo ?a)" by (rule powi_mono2)
    then show False using lo hi by simp
  qed
  show ?thesis
  proof (cases "expo ?a = 53")
    case True
    then have "?a = 2 ^ 53" using lo hi by simp
    then show ?thesis using True a by (simp add: double_pos py_round_def)
  next
    case False
    define k where "k = nat (52 - expo ?a)"
    have k: "expo ?a - 52 = - int k" using False e53 by (simp add: k_def)
    have u: "(2::real) powi (expo ?a - 52) = 1 / 2 ^ k"
      unfolding k by (simp add: power_int_minus divide_simps)
    have "?a / 2 powi (expo ?a - 52) = of_int (n * 2 ^ k)"
      unfolding u by simp
    then have "py_round (?a / 2 powi (expo ?a - 52)) = n * 2 ^ k"
      by (simp only: py_round_of_int)
    then show ?thesis using a unfolding double_pos [OF a] u by simp
  qed
qed

lemma double_of_int:
  assumes "\<bar>n\<bar> \<le> 2 ^ 53"
  shows "double (of_int n) = of_int n"
proof (cases "0 < n")
  case True
  then show ?thesis using assms by (intro double_of_int_pos) simp_all
next
  case False
  show ?thesis
  proof (cases "n = 0")
    case True
    then show ?thesis by simp
  next
    case False
    then have "0 < - n" "- n \<le> 2 ^ 53" using \<open>\<not> 0 < n\<close> assms by simp_all
    then have "double (of_int (- n)) = of_int (- n)" by (rule double_of_int_pos)
    then show ?thesis by (simp add: double_minus)
  qed
qed

lemma double_1 [simp]: "double 1 = 1"
  using double_of_int [of 1] by simp


section \<open>Properties of mass splitting\<close>
















subsection \<open>Total-preserving rounding\<close>













subsection \<open>The result of a split\<close>

lemma foldl_dadd_double: "double a = a \<Longrightarrow> double (foldl dadd a xs) = foldl dadd a xs"
  by (induction xs arbitrary: a) (simp_all add: dadd_def)






subsection \<open>The examples\<close>

lemmas double_eval = dadd_def dsub_def dmul_def double_def expo_def expo_up_stop expo_up_step
  expo_down_stop expo_down_step py_round_def Let_def

lemma ex_spec_a_p: "p ex_spec_a = 2550838828942649 / 18014398509481984"
  by (simp add: ex_spec_a_def double_eval)


lemma ex_probs_ab:
  "split_probs [ex_spec_a, ex_spec_b] 0
   = [2550838828942649 / 18014398509481984, 1932944960067417 / 2251799813685248]"
  by (simp add: ex_spec_a_p double_eval)


lemma ex_masses_all:
  "split_masses 200 [ex_spec_all, ex_spec_a, ex_spec_b] 0 0 = [200, 0, 0]"
  by (simp add: ex_spec_all_def double_eval)


















subsection \<open>Conservation of mass\<close>




subsection \<open>The last spec and the early end of the loop\<close>





section \<open>Properties of dictionaries and of the setters\<close>

lemma dict_get_dict_set:
  "dict_get (dict_set d k v) k' = (if k' = k then Some v else dict_get d k')"
  by (induction d) (auto simp: dict_get_def)

lemma dict_set_keys:
  "map fst (dict_set d k v) = (if k \<in> set (map fst d) then map fst d else map fst d @ [k])"
  by (induction d) (auto simp: rev_image_eqI)

lemma wf_dict_dict_set: "wf_dict d \<Longrightarrow> wf_dict (dict_set d k v)"
  by (simp add: wf_dict_def dict_set_keys)

text \<open>
  C9. On a group bound to a population, \<^verbatim>\<open>set_attr\<close> and \<^verbatim>\<open>set_rel\<close> without
  \<^verbatim>\<open>do_force\<close> raise GroupFrozenError and leave the group as it was. On a standalone group
  they succeed (with or without \<^verbatim>\<open>do_force\<close>): the key maps to the new value, every other
  key, the other dictionary and the mass are untouched, and the cached hash is reset.
\<close>

theorem frozen_mutation:
  "(g_pop g \<longrightarrow>
      set_attr g nm v False = (Some GroupFrozenError, g) \<and>
      set_rel D P g nm v False = (Some GroupFrozenError, g)) \<and>
   (\<not> g_pop g \<longrightarrow>
      fst (set_attr g nm v do_force) = None \<and>
      dict_get (g_attr (snd (set_attr g nm v do_force))) nm = Some v \<and>
      (\<forall>k. k \<noteq> nm \<longrightarrow>
         dict_get (g_attr (snd (set_attr g nm v do_force))) k = dict_get (g_attr g) k) \<and>
      g_rel (snd (set_attr g nm v do_force)) = g_rel g \<and>
      g_m (snd (set_attr g nm v do_force)) = g_m g \<and>
      g_hash (snd (set_attr g nm v do_force)) = None \<and>
      fst (set_rel D P g nm v do_force) = None \<and>
      dict_get (g_rel (snd (set_rel D P g nm v do_force))) nm = Some v \<and>
      (\<forall>k. k \<noteq> nm \<longrightarrow>
         dict_get (g_rel (snd (set_rel D P g nm v do_force))) k = dict_get (g_rel g) k) \<and>
      g_attr (snd (set_rel D P g nm v do_force)) = g_attr g \<and>
      g_m (snd (set_rel D P g nm v do_force)) = g_m g \<and>
      g_hash (snd (set_rel D P g nm v do_force)) = None)"
  by (simp add: set_attr_def set_rel_def dict_get_dict_set)

theorem frozen_mutation_witness:
  "set_attr ex_g1 ''income'' (Plain (PStr ''h'')) False = (Some GroupFrozenError, ex_g1) \<and>
   set_rel plain_digests ex_pop1 ex_g1 ''location'' (Plain (PStr ''work'')) False
     = (Some GroupFrozenError, ex_g1) \<and>
   set_attr (Group (Some ''g.1'') 200 [(''sex'', Plain (PStr ''f''))] []) ''income''
       (Plain (PStr ''h'')) False
     = (None, Group (Some ''g.1'') 200
                [(''sex'', Plain (PStr ''f'')), (''income'', Plain (PStr ''h''))] []) \<and>
   set_rel plain_digests ex_pop1 (Group (Some ''g.1'') 200 [] [(''location'', Plain (PStr ''home''))])
       ''location'' (Plain (PStr ''work'')) False
     = (None, Group (Some ''g.1'') 200 [] [(''location'', Plain (PStr ''work''))])"
proof -
  have a: "g_pop ex_g1" by (simp add: ex_g1_def)
  have b: "\<not> g_pop (Group (Some ''g.1'') 200 [(''sex'', Plain (PStr ''f''))] [])"
    "\<not> g_pop (Group (Some ''g.1'') 200 [] [(''location'', Plain (PStr ''home''))])"
    by (simp_all add: Group_def)
  note t1 = frozen_mutation [of ex_g1 "''income''" "Plain (PStr ''h'')" plain_digests ex_pop1]
  note t2 = frozen_mutation [of ex_g1 "''location''" "Plain (PStr ''work'')" plain_digests ex_pop1]
  note t3 = frozen_mutation [of "Group (Some ''g.1'') 200 [(''sex'', Plain (PStr ''f''))] []"
      "''income''" "Plain (PStr ''h'')" plain_digests ex_pop1 False]
  note t4 = frozen_mutation [of "Group (Some ''g.1'') 200 [] [(''location'', Plain (PStr ''home''))]"
      "''location''" "Plain (PStr ''work'')" plain_digests ex_pop1 False]
  have c: "set_attr (Group (Some ''g.1'') 200 [(''sex'', Plain (PStr ''f''))] []) ''income''
       (Plain (PStr ''h'')) False
     = (None, Group (Some ''g.1'') 200
                [(''sex'', Plain (PStr ''f'')), (''income'', Plain (PStr ''h''))] [])"
    using t3 b by (simp add: set_attr_def Group_def)
  have d: "set_rel plain_digests ex_pop1 (Group (Some ''g.1'') 200 [] [(''location'', Plain (PStr ''home''))])
       ''location'' (Plain (PStr ''work'')) False
     = (None, Group (Some ''g.1'') 200 [] [(''location'', Plain (PStr ''work''))])"
    using t4 b by (simp add: set_rel_def Group_def)
  show ?thesis using t1 t2 a c d by simp
qed

end
